theory Spec2Isabelle
  imports Complex_Main "HOL-Library.Sublist"
begin

section \<open>Python values used by the meta-controller\<close>

text \<open>
  The program is Python. Its floats are modelled by \<^typ>\<open>real\<close>: every product, sum and
  quotient below is exact, so rounding, overflow and underflow of IEEE doubles are outside
  the model. Strings are byte strings; \<open>str.lower\<close>, \<open>str.strip\<close> and \<open>str.title\<close> are
  modelled on ASCII. Exceptions are values of \<open>py_error\<close>; a function that may raise
  returns \<open>py_error + 'a\<close> with \<open>Inl\<close> for the exception.
\<close>

datatype py_error =
    KeyError string
  | ZeroDivisionError
  | RecursionError
  | AttributeError string
  | Timeout
  | OtherException string

definition ascii_uppercase :: string where
  "ascii_uppercase = ''ABCDEFGHIJKLMNOPQRSTUVWXYZ''"

definition ascii_lowercase :: string where
  "ascii_lowercase = ''abcdefghijklmnopqrstuvwxyz''"

definition is_upper :: "char \<Rightarrow> bool" where
  "is_upper c = (c \<in> set ascii_uppercase)"

definition is_lower :: "char \<Rightarrow> bool" where
  "is_lower c = (c \<in> set ascii_lowercase)"

definition lower_char :: "char \<Rightarrow> char" where
  "lower_char c = (case map_of (zip ascii_uppercase ascii_lowercase) c of None \<Rightarrow> c | Some d \<Rightarrow> d)"

definition upper_char :: "char \<Rightarrow> char" where
  "upper_char c = (case map_of (zip ascii_lowercase ascii_uppercase) c of None \<Rightarrow> c | Some d \<Rightarrow> d)"

definition lower :: "string \<Rightarrow> string" where
  "lower s = map lower_char s"

text \<open>The characters \<open>str.strip()\<close> and \<open>str.split()\<close> treat as white space (ASCII): tab, LF,
  VT, FF, CR, FS, GS, RS, US and the space.\<close>

definition is_space :: "char \<Rightarrow> bool" where
  "is_space c = (c \<in> set [CHR 0x09, CHR 0x0A, CHR 0x0B, CHR 0x0C, CHR 0x0D,
                            CHR 0x1C, CHR 0x1D, CHR 0x1E, CHR 0x1F, CHR 0x20])"

definition strip :: "string \<Rightarrow> string" where
  "strip s = rev (dropWhile is_space (rev (dropWhile is_space s)))"

text \<open>\<open>kw in s\<close> on strings: \<open>kw\<close> occurs in \<open>s\<close> as a contiguous substring.\<close>

fun py_in :: "string \<Rightarrow> string \<Rightarrow> bool" where
  "py_in kw [] = (kw = [])"
| "py_in kw (c # cs) = (prefix kw (c # cs) \<or> py_in kw cs)"

text \<open>\<open>d.get(k, default)\<close> and \<open>d[k]\<close> on a dictionary kept as an association list in
  insertion order.\<close>

definition dict_get :: "(string \<times> 'v) list \<Rightarrow> string \<Rightarrow> 'v \<Rightarrow> 'v" where
  "dict_get d k dflt = (case map_of d k of None \<Rightarrow> dflt | Some v \<Rightarrow> v)"

definition dict_index :: "(string \<times> 'v) list \<Rightarrow> string \<Rightarrow> py_error + 'v" where
  "dict_index d k = (case map_of d k of None \<Rightarrow> Inl (KeyError k) | Some v \<Rightarrow> Inr v)"

text \<open>\<open>d[k] = v\<close> for a key that is present: the entry keeps its position.\<close>

fun dict_set :: "(string \<times> 'v) list \<Rightarrow> string \<Rightarrow> 'v \<Rightarrow> (string \<times> 'v) list" where
  "dict_set [] k v = [(k, v)]"
| "dict_set ((k', v') # d) k v = (if k' = k then (k, v) # d else (k', v') # dict_set d k v)"

text \<open>\<open>max(scores, key=scores.get)\<close>: the first key, in insertion order, whose value is
  maximal. On an empty dictionary Python raises \<open>ValueError\<close>; the accumulator version below
  is only called with a first entry.\<close>

fun max_from :: "string \<Rightarrow> real \<Rightarrow> (string \<times> real) list \<Rightarrow> string" where
  "max_from best bv [] = best"
| "max_from best bv ((k, v) # d) = (if bv < v then max_from k v d else max_from best bv d)"

section \<open>Feature record\<close>

text \<open>
  \<open>features\<close> is a \<open>Dict[str, Any]\<close> read only through \<open>features.get\<close>. A field is
  \<open>None\<close> when the key is absent, which is how \<open>get\<close> falls back to its default.
\<close>

record features =
  query :: "string option"
  length_field :: "nat option"
  has_number :: "bool option"
  intent :: "string option"
  complexity :: "string option"
  is_rule_violation :: "bool option"

definition truthy :: "bool option \<Rightarrow> bool" where
  "truthy b = (case b of None \<Rightarrow> False | Some v \<Rightarrow> v)"

definition get_str :: "string option \<Rightarrow> string \<Rightarrow> string" where
  "get_str field dflt = (case field of None \<Rightarrow> dflt | Some v \<Rightarrow> v)"

section \<open>StrategySelector: state\<close>

record counters =
  success :: nat
  total :: nat

record selector =
  strategy_weights :: "(string \<times> real) list"
  strategy_success :: "(string \<times> counters) list"
  confidence_threshold :: real

text \<open>The keys of \<open>self.strategies\<close>, in the order \<open>__init__\<close> inserts them.\<close>

definition strategy_names :: "string list" where
  "strategy_names = [''Rule-Based'', ''Retrieval'', ''Classical ML'', ''Transformer'']"

definition init_selector :: selector where
  "init_selector = \<lparr>
     strategy_weights = [(''Rule-Based'', 1.0), (''Retrieval'', 1.0),
                         (''Classical ML'', 1.0), (''Transformer'', 1.0)],
     strategy_success = [(''Rule-Based'', \<lparr>success = 0, total = 0\<rparr>),
                         (''Retrieval'', \<lparr>success = 0, total = 0\<rparr>),
                         (''Classical ML'', \<lparr>success = 0, total = 0\<rparr>),
                         (''Transformer'', \<lparr>success = 0, total = 0\<rparr>)],
     confidence_threshold = 0.35 \<rparr>"

section \<open>StrategySelector.select\_strategy\<close>

definition CAPABILITY_MATRIX :: "(string \<times> (string \<times> real) list) list" where
  "CAPABILITY_MATRIX = [
     (''rule_violation'', [(''Rule-Based'', 10.0), (''Retrieval'', 0.0), (''Classical ML'', 0.0), (''Transformer'', 0.0)]),
     (''calculation'',    [(''Rule-Based'', 1.0), (''Retrieval'', 0.5), (''Classical ML'', 8.0), (''Transformer'', 2.0)]),
     (''factual'',        [(''Rule-Based'', 2.0), (''Retrieval'', 8.0), (''Classical ML'', 2.0), (''Transformer'', 3.0)]),
     (''explanation'',    [(''Rule-Based'', 0.5), (''Retrieval'', 4.0), (''Classical ML'', 1.0), (''Transformer'', 7.0)]),
     (''reason'',         [(''Rule-Based'', 0.0), (''Retrieval'', 3.0), (''Classical ML'', 1.0), (''Transformer'', 7.0)]),
     (''general'',        [(''Rule-Based'', 1.0), (''Retrieval'', 2.0), (''Classical ML'', 3.0), (''Transformer'', 6.0)])]"

definition general_row :: "(string \<times> real) list" where
  "general_row = [(''Rule-Based'', 1.0), (''Retrieval'', 2.0), (''Classical ML'', 3.0), (''Transformer'', 6.0)]"

definition factual_indicators :: "string list" where
  "factual_indicators = [''prime minister'', ''chief minister'', ''president'', ''governor'',
                         ''limit'', ''minimum'', ''maximum'']"

text \<open>The base score of one strategy, after the Transformer guard.\<close>

definition base_score :: "string \<Rightarrow> string \<Rightarrow> real" where
  "base_score intent_v strategy_name =
     (if strategy_name = ''Transformer'' \<and> intent_v \<notin> set [''explanation'', ''reason'', ''general'']
      then 0.1
      else dict_get (dict_get CAPABILITY_MATRIX intent_v general_row) strategy_name 1.0)"

definition context_bonus :: "features \<Rightarrow> string \<Rightarrow> string \<Rightarrow> real" where
  "context_bonus f complexity_v strategy_name =
     (if complexity_v = ''high'' \<and> strategy_name = ''Transformer'' then 3.0
      else if complexity_v = ''low'' \<and> strategy_name \<in> set [''Rule-Based'', ''Classical ML'', ''Retrieval'']
      then 2.0 else 0.0)
     + (if truthy (has_number f) \<and> strategy_name = ''Classical ML'' then 2.0 else 0.0)"

text \<open>One iteration of the loop over \<open>self.strategies.keys()\<close>.\<close>

definition final_utility :: "selector \<Rightarrow> features \<Rightarrow> string \<Rightarrow> real" where
  "final_utility s f strategy_name =
     base_score (get_str (intent f) ''general'') strategy_name
       * (dict_get (strategy_weights s) strategy_name 0.25 * 4.0)
     + context_bonus f (get_str (complexity f) ''low'') strategy_name"

definition scores :: "selector \<Rightarrow> features \<Rightarrow> (string \<times> real) list" where
  "scores s f = map (\<lambda>n. (n, final_utility s f n)) strategy_names"

definition best_strategy :: "(string \<times> real) list \<Rightarrow> string" where
  "best_strategy sc = (case sc of [] \<Rightarrow> [] | (k, v) # d \<Rightarrow> max_from k v d)"

definition select_strategy :: "selector \<Rightarrow> features \<Rightarrow> string" where
  "select_strategy s f =
     (if truthy (is_rule_violation f) then ''Rule-Based''
      else let intent_v = get_str (intent f) ''general'';
               query_text = lower (get_str (query f) [])
           in if intent_v = ''factual'' \<or> (\<exists>kw \<in> set factual_indicators. py_in kw query_text)
              then ''Retrieval''
              else best_strategy (scores s f))"

section \<open>StrategySelector.update\_from\_feedback and statistics\<close>

definition sum_weights :: "(string \<times> real) list \<Rightarrow> real" where
  "sum_weights w = sum_list (map snd w)"

text \<open>
  The weights are Python floats and the model computes with reals. It decides what holds
  of the doubles up to rounding, such as the sum of the weights after normalisation and the
  order of scores that differ by more than rounding. It does not decide what depends on
  the doubles themselves: once a weight has shrunk into the denormal range, multiplying
  by 0.9 no longer changes it, so neither the strict growth of a ratio of weights over an
  arbitrarily long feedback sequence nor the existence of a smallest positive weight can
  be read off the real-valued model.
\<close>

text \<open>
  The method mutates \<open>self\<close> and may raise part-way: the result pairs the exception, if
  any, with the state the object is left in. \<open>KeyError\<close> is raised before anything is
  written; \<open>ZeroDivisionError\<close> is raised by the first division, after the counters
  and the multiplied weight have been stored.
\<close>

definition update_from_feedback :: "selector \<Rightarrow> string \<Rightarrow> bool \<Rightarrow> py_error option \<times> selector" where
  "update_from_feedback s strategy succ =
     (case dict_index (strategy_success s) strategy of
        Inl e \<Rightarrow> (Some e, s)
      | Inr c \<Rightarrow>
         let c1 = c\<lparr>total := total c + 1\<rparr>;
             c2 = (if succ then c1\<lparr>success := success c1 + 1\<rparr> else c1);
             s1 = s\<lparr>strategy_success := dict_set (strategy_success s) strategy c2\<rparr>
         in (case dict_index (strategy_weights s1) strategy of
              Inl e \<Rightarrow> (Some e, s1)
            | Inr w \<Rightarrow>
               let s2 = s1\<lparr>strategy_weights :=
                            dict_set (strategy_weights s1) strategy (if succ then w * 1.1 else w * 0.9)\<rparr>;
                   total_weight = sum_weights (strategy_weights s2)
               in if total_weight = 0 then (Some ZeroDivisionError, s2)
                  else let normalised = map (\<lambda>(k, v). (k, v / total_weight)) (strategy_weights s2)
                       in (None, s2\<lparr>strategy_weights := normalised\<rparr>)))"

text \<open>A sequence of feedback calls on one object; an exception leaves the object as the
  failed call left it and the next call goes on from there.\<close>

fun feedback_run :: "selector \<Rightarrow> (string \<times> bool) list \<Rightarrow> selector" where
  "feedback_run s [] = s"
| "feedback_run s ((strategy, succ) # fs) = feedback_run (snd (update_from_feedback s strategy succ)) fs"

definition get_success_rate :: "selector \<Rightarrow> string \<Rightarrow> py_error + real" where
  "get_success_rate s strategy =
     (case dict_index (strategy_success s) strategy of
        Inl e \<Rightarrow> Inl e
      | Inr stats \<Rightarrow> if total stats = 0 then Inr 0.5
                     else Inr (real (success stats) / real (total stats)))"

record strategy_stat =
  weight :: real
  success_rate :: real
  total_uses :: nat

text \<open>The loop of \<open>get_strategy_stats\<close> over \<open>self.strategies\<close>; the first exception ends it.\<close>

fun stats_loop :: "selector \<Rightarrow> string list \<Rightarrow> py_error + (string \<times> strategy_stat) list" where
  "stats_loop s [] = Inr []"
| "stats_loop s (n # ns) =
     (case get_success_rate s n of
        Inl e \<Rightarrow> Inl e
      | Inr r \<Rightarrow>
         (case dict_index (strategy_weights s) n of
            Inl e \<Rightarrow> Inl e
          | Inr w \<Rightarrow>
             (case dict_index (strategy_success s) n of
                Inl e \<Rightarrow> Inl e
              | Inr c \<Rightarrow>
                 (case stats_loop s ns of
                    Inl e \<Rightarrow> Inl e
                  | Inr rest \<Rightarrow> Inr ((n, \<lparr>weight = w, success_rate = r, total_uses = total c\<rparr>) # rest)))))"

definition get_strategy_stats :: "selector \<Rightarrow> py_error + (string \<times> strategy_stat) list" where
  "get_strategy_stats s = stats_loop s strategy_names"

section \<open>More string operations\<close>

text \<open>\<open>s.title()\<close>: the first letter of every run of letters in upper case, the others in
  lower case. The flag says whether the previous character was a letter.\<close>

fun title_from :: "bool \<Rightarrow> string \<Rightarrow> string" where
  "title_from prev [] = []"
| "title_from prev (c # cs) =
     (if is_upper c \<or> is_lower c
      then (if prev then lower_char c else upper_char c) # title_from True cs
      else c # title_from False cs)"

definition title :: "string \<Rightarrow> string" where
  "title s = title_from False s"

text \<open>\<open>s.replace(old, new)\<close> for a non-empty \<open>old\<close>: occurrences are replaced from the
  left and do not overlap. The counter is the number of characters of a matched occurrence
  still to be skipped.\<close>

fun replace_from :: "nat \<Rightarrow> string \<Rightarrow> string \<Rightarrow> string \<Rightarrow> string" where
  "replace_from k old new [] = []"
| "replace_from k old new (c # cs) =
     (if 0 < k then replace_from (k - 1) old new cs
      else if prefix old (c # cs) then new @ replace_from (length old - 1) old new cs
      else c # replace_from 0 old new cs)"

definition replace :: "string \<Rightarrow> string \<Rightarrow> string \<Rightarrow> string" where
  "replace s old new = replace_from 0 old new s"

text \<open>\<open>s.split()\<close>: the maximal runs of characters that are not white space.\<close>

fun split_from :: "string \<Rightarrow> string \<Rightarrow> string list" where
  "split_from cur [] = (if cur = [] then [] else [rev cur])"
| "split_from cur (c # cs) =
     (if is_space c then (if cur = [] then split_from [] cs else rev cur # split_from [] cs)
      else split_from (c # cur) cs)"

definition split :: "string \<Rightarrow> string list" where
  "split s = split_from [] s"

fun join :: "string \<Rightarrow> string list \<Rightarrow> string" where
  "join sep [] = []"
| "join sep [x] = x"
| "join sep (x # y # ys) = x @ sep @ join sep (y # ys)"

text \<open>\<open>re.search\<close> for the two shapes of pattern the rule engine uses: a literal, and
  \<open>a.*b\<close> with literals \<open>a\<close> and \<open>b\<close>, where \<open>.\<close> matches any character but the
  line feed.\<close>

datatype pattern = Literal string | DotStar string string

fun search_dotstar :: "string \<Rightarrow> string \<Rightarrow> string \<Rightarrow> bool" where
  "search_dotstar a b [] = (a = [] \<and> b = [])"
| "search_dotstar a b (c # cs) =
     ((prefix a (c # cs) \<and> py_in b (takeWhile (\<lambda>x. x \<noteq> CHR 0x0A) (drop (length a) (c # cs))))
      \<or> search_dotstar a b cs)"

fun re_search :: "pattern \<Rightarrow> string \<Rightarrow> bool" where
  "re_search (Literal a) s = py_in a s"
| "re_search (DotStar a b) s = search_dotstar a b s"

section \<open>The strategy contract\<close>

text \<open>
  Every engine's \<open>predict\<close> returns \<open>(answer, confidence, reason)\<close>. The annotation
  says the answer is a \<open>str\<close>, but nothing checks it: an answer taken from a provider's
  JSON payload is whatever value the payload holds. \<open>Other b p\<close> is a JSON value that is
  not a string (a number, an object, an array, a boolean or null), with its truth value
  \<open>b\<close> and the text \<open>p\<close> that \<open>str()\<close> prints for it.
\<close>

datatype py_value = Str string | Other bool string

fun py_truthy :: "py_value \<Rightarrow> bool" where
  "py_truthy (Str s) = (s \<noteq> [])"
| "py_truthy (Other b p) = b"

fun py_str :: "py_value \<Rightarrow> string" where
  "py_str (Str s) = s"
| "py_str (Other b p) = p"

type_synonym triple = "py_value \<times> real \<times> string"

text \<open>A triple whose answer is a string by construction (a literal, an f-string, a
  decoded generation).\<close>

type_synonym text_triple = "string \<times> real \<times> string"

definition as_value :: "text_triple \<Rightarrow> triple" where
  "as_value t = (case t of (answer, confidence, reason) \<Rightarrow> (Str answer, confidence, reason))"

section \<open>RuleEngine\<close>

definition restricted_patterns :: "pattern list" where
  "restricted_patterns = [DotStar ''predict'' ''mark'', DotStar ''predict'' ''score'',
     DotStar ''how'' ''hack'', DotStar ''bypass'' ''security'', DotStar ''cheat'' ''exam'',
     Literal ''illegal'']"

definition static_rules :: "(string \<times> string) list" where
  "static_rules = [
     (''what is meta-learning'', ''Meta-learning is the process of 'learning how to learn', where an AI system automatically selects the best learning strategy for a given task.''),
     (''who created you'', ''I am a Meta-Learning AI System developed as a project demonstration.''),
     (''help'', ''I can answer questions using different strategies: Rule-based, Retrieval, Classical ML, or Transformers. Try verifying different types of queries!''),
     (''version'', ''System Version 1.0.0 (Production Ready)''),
     (''minimum attendance'', ''The minimum attendance requirement is 75% for students and 3 hours per week for project participants.''),
     (''minimum age'', ''The minimum age requirement for participation is 16 years of age or older.''),
     (''attendance requirement'', ''Attendance is mandatory at 75% threshold with a minimum of 3 active hours per week.''),
     (''perform calculations'', ''The system supports simple arithmetic operations (+, -, *, /) through its Classical ML engine. It does not support complex calculus or advanced statistical modeling currently.''),
     (''what calculations'', ''I can help with basic addition, subtraction, multiplication, and division.''),
     (''how do you learn'', ''I learn by selecting the best strategy for your question and improving my strategy weights based on your 'Helpful' feedback.'')]"

definition indian_states :: "string list" where
  "indian_states = [
     ''andhra pradesh'', ''arunachal pradesh'', ''assam'', ''bihar'', ''chhattisgarh'',
     ''goa'', ''gujarat'', ''haryana'', ''himachal pradesh'', ''jharkhand'', ''karnataka'',
     ''kerala'', ''madhya pradesh'', ''maharashtra'', ''manipur'', ''meghalaya'', ''mizoram'',
     ''nagaland'', ''odisha'', ''punjab'', ''rajasthan'', ''sikkim'', ''tamil nadu'', ''telangana'',
     ''tripura'', ''uttar pradesh'', ''uttarakhand'', ''west bengal'']"

text \<open>\<open>_is_invalid_role_query\<close>: each loop returns at the first state named in the query;
  a loop that finds none falls through to the next check.\<close>

definition is_invalid_role_query :: "string \<Rightarrow> bool \<times> string" where
  "is_invalid_role_query q =
     (let query_lower = lower q;
          hit = find (\<lambda>state. py_in state query_lower) indian_states
      in case (if py_in ''prime minister'' query_lower \<or> py_in ''pm of'' query_lower then hit else None) of
           Some state \<Rightarrow>
             (True, ''In India, '' @ title state @
                    '' is a state and has a Chief Minister, not a Prime Minister. Are you looking for the Chief Minister of '' @
                    title state @ ''?'')
         | None \<Rightarrow>
             (case (if py_in ''president'' query_lower then hit else None) of
                Some state \<Rightarrow>
                  (True, ''Individual states in India do not have their own Presidents. They are headed by Governors. Were you looking for the Governor of '' @
                         title state @ '' or the President of India?'')
              | None \<Rightarrow> (False, [])))"

definition safety_refusal :: string where
  "safety_refusal = ''I cannot fulfill this request. My safety protocols prevent me from answering queries related to predictions of personal scores, hacking, or unethical activities.''"

definition rule_predict :: "string \<Rightarrow> features \<Rightarrow> text_triple" where
  "rule_predict q f =
     (let query_lower = strip (lower q) in
      case is_invalid_role_query query_lower of
        (True, correction) \<Rightarrow> (correction, 1.0, ''Role-Entity Mismatch Detected'')
      | (False, _) \<Rightarrow>
          if \<exists>p \<in> set restricted_patterns. re_search p query_lower
          then (safety_refusal, 1.0, ''Safety Rule Violation Blocked'')
          else (case find (\<lambda>(key, answer). py_in key query_lower) static_rules of
                  Some (key, answer) \<Rightarrow>
                    (answer, 1.0, ''Static Rule Match: '' @ [CHR 0x27] @ key @ [CHR 0x27])
                | None \<Rightarrow> ([], 0.0, ''No rule matched'')))"

section \<open>The outside world\<close>

text \<open>
  What the engines reach outside the program is a parameter of the model: an \<open>env\<close> of
  oracles for the knowledge-base search, the HTTP providers, the trained classifier and the
  generative model. Every oracle takes the number of external calls made so far, so its
  answers may change from one call to the next, and every one of them may raise. The
  \<open>world\<close> is what the engines mutate: the retrieval cache, and a trace of the external
  calls, which is only there to be observed.
\<close>

datatype event =
    LocalSearch string
  | DuckDuckGo string
  | WikiSummary string
  | WikiSearch string
  | Classify string
  | Generate string

text \<open>\<open>requests.get\<close> raises, or returns a response with a status code whose \<open>.json()\<close>
  raises or yields the payload.\<close>

datatype 'a http_reply = Raised py_error | Reply nat "py_error + 'a"

text \<open>The keys the engine reads from a decoded payload; a field is \<open>None\<close> when the key
  is absent. A payload that is not a JSON object makes the first access raise, which is
  the \<open>Inl\<close> of the reply's body.\<close>

record ddg_payload =
  abstract_text :: "py_value option"
  answer_field :: "py_value option"
  definition_field :: "py_value option"

record wiki_payload =
  extract_field :: "py_value option"
  title_field :: "py_value option"

record env =
  kb_loaded :: bool
  local_search :: "nat \<Rightarrow> string \<Rightarrow> py_error + (string \<times> real)"
  format_2f :: "real \<Rightarrow> string"
  ddg_get :: "nat \<Rightarrow> string \<Rightarrow> ddg_payload http_reply"
  wiki_summary_get :: "nat \<Rightarrow> string \<Rightarrow> wiki_payload http_reply"
  wiki_search_get :: "nat \<Rightarrow> string \<Rightarrow> (py_value option) list http_reply"
  recursion_limit :: nat
  ml_model :: "(nat \<Rightarrow> string \<Rightarrow> py_error + (string \<times> real)) option"
  ml_calc_body :: "string \<Rightarrow> py_error + text_triple option"
  simulation_mode :: bool
  generate_and_validate :: "nat \<Rightarrow> string \<Rightarrow> py_error + text_triple"
  error_text :: "py_error \<Rightarrow> string"

record world =
  cache :: "(string \<times> triple) list"
  trace :: "event list"

definition log_event :: "event \<Rightarrow> world \<Rightarrow> world" where
  "log_event ev w = w\<lparr>trace := trace w @ [ev]\<rparr>"

definition clock :: "world \<Rightarrow> nat" where
  "clock w = length (trace w)"

text \<open>The result of the statements of a \<open>try\<close> block: an exception, a returned value, or
  \<open>None\<close> when control leaves the block without returning. \<open>absorb\<close> is the handler
  \<open>except Exception\<close> followed by the fall-back \<open>return\<close> after the block.\<close>

definition absorb :: "'a \<Rightarrow> py_error + 'a option \<Rightarrow> 'a" where
  "absorb fallback r = (case r of Inl err \<Rightarrow> fallback | Inr None \<Rightarrow> fallback | Inr (Some t) \<Rightarrow> t)"

section \<open>RetrievalEngine\<close>

text \<open>The truth value of \<open>data.get(key)\<close>: \<open>None\<close> for a missing key is false.\<close>

definition opt_truthy :: "py_value option \<Rightarrow> bool" where
  "opt_truthy x = (case x of None \<Rightarrow> False | Some v \<Rightarrow> py_truthy v)"

text \<open>\<open>data.get('AbstractText') or data.get('Answer') or data.get('Definition', '')\<close>: the
  first operand that is true, else the last one, whatever its type.\<close>

definition ddg_answer :: "ddg_payload \<Rightarrow> py_value" where
  "ddg_answer data =
     (if opt_truthy (abstract_text data) then (case abstract_text data of Some v \<Rightarrow> v | None \<Rightarrow> Str [])
      else if opt_truthy (answer_field data) then (case answer_field data of Some v \<Rightarrow> v | None \<Rightarrow> Str [])
      else (case definition_field data of Some v \<Rightarrow> v | None \<Rightarrow> Str []))"

definition ddg_try :: "env \<Rightarrow> string \<Rightarrow> world \<Rightarrow> py_error + triple option" where
  "ddg_try e q w =
     (case ddg_get e (clock w) q of
        Raised err \<Rightarrow> Inl err
      | Reply status body \<Rightarrow>
          if status = 200 then
            (case body of
               Inl err \<Rightarrow> Inl err
             | Inr data \<Rightarrow>
                 if py_truthy (ddg_answer data)
                 then Inr (Some (ddg_answer data, 0.85, ''Web Retrieval (DuckDuckGo IA)''))
                 else Inr None)
          else Inr None)"

definition fetch_duckduckgo :: "env \<Rightarrow> string \<Rightarrow> world \<Rightarrow> triple \<times> world" where
  "fetch_duckduckgo e q w =
     (absorb (Str [], 0.0, ''DuckDuckGo unavailable'') (ddg_try e q w), log_event (DuckDuckGo q) w)"

definition wikipedia_unavailable :: triple where
  "wikipedia_unavailable = (Str [], 0.0, ''Wikipedia unavailable'')"

text \<open>
  \<open>_fetch_wikipedia\<close> calls itself on the title the search API returns. The first argument
  is the number of nested calls the interpreter still allows: at 0 the call raises
  \<open>RecursionError\<close>, which the \<open>except Exception\<close> of the calling frame absorbs like any
  other exception. A title that is not a string makes the nested call raise at its first
  statement, \<open>query.lower()\<close>, inside its own \<open>try\<close> and before any request.
\<close>

fun wikipedia_try :: "env \<Rightarrow> nat \<Rightarrow> string \<Rightarrow> world \<Rightarrow> (py_error + triple option) \<times> world" where
  "wikipedia_try e 0 q w = (Inl RecursionError, w)"
| "wikipedia_try e (Suc depth) q w =
     (let search_term = strip (replace (replace (replace (replace (replace (lower q)
                           ''?'' []) ''who is'' []) ''what is'' []) ''the current'' []) ''the'' []);
          search_url_term = title (replace search_term '' '' ''_'');
          w1 = log_event (WikiSummary search_url_term) w
      in case wiki_summary_get e (clock w) search_url_term of
           Raised err \<Rightarrow> (Inl err, w1)
         | Reply status body \<Rightarrow>
             if status = 200 then
               (case body of
                  Inl err \<Rightarrow> (Inl err, w1)
                | Inr data \<Rightarrow>
                    (case extract_field data of
                       None \<Rightarrow> (Inr None, w1)
                     | Some x \<Rightarrow>
                         (Inr (Some (x, 0.90, ''Wikipedia: '' @
                                 (case title_field data of None \<Rightarrow> ''None'' | Some t \<Rightarrow> py_str t))), w1)))
             else if status = 404 then
               (let w2 = log_event (WikiSearch search_term) w1
                in case wiki_search_get e (clock w1) search_term of
                     Raised err \<Rightarrow> (Inl err, w2)
                   | Reply search_status search_body \<Rightarrow>
                       if search_status = 200 then
                         (case search_body of
                            Inl err \<Rightarrow> (Inl err, w2)
                          | Inr [] \<Rightarrow> (Inr None, w2)
                          | Inr (None # _) \<Rightarrow> (Inl (KeyError ''title''), w2)
                          | Inr (Some (Other b p) # _) \<Rightarrow> (Inr (Some wikipedia_unavailable), w2)
                          | Inr (Some (Str top_title) # _) \<Rightarrow>
                              (case wikipedia_try e depth top_title w2 of
                                 (r, w3) \<Rightarrow> (Inr (Some (absorb wikipedia_unavailable r)), w3)))
                       else (Inr None, w2))
             else (Inr None, w1))"

definition fetch_wikipedia :: "env \<Rightarrow> string \<Rightarrow> world \<Rightarrow> triple \<times> world" where
  "fetch_wikipedia e q w =
     (case wikipedia_try e (recursion_limit e) q w of
        (r, w') \<Rightarrow> (absorb wikipedia_unavailable r, w'))"

definition fetch_from_web_apis :: "env \<Rightarrow> string \<Rightarrow> world \<Rightarrow> triple \<times> world" where
  "fetch_from_web_apis e q w =
     (case fetch_duckduckgo e q w of
        (result, w1) \<Rightarrow>
          if py_truthy (fst result) then (result, w1)
          else (case fetch_wikipedia e q w1 of
                  (result2, w2) \<Rightarrow>
                    if py_truthy (fst result2) then (result2, w2)
                    else ((Str [], 0.0, ''Web retrieval failed (all APIs exhausted)''), w2)))"

text \<open>The \<open>try\<close> block around the local similarity search of \<open>predict\<close>.\<close>

definition local_try :: "env \<Rightarrow> string \<Rightarrow> string \<Rightarrow> world \<Rightarrow> (py_error + triple option) \<times> world" where
  "local_try e q query_norm w =
     (let w1 = log_event (LocalSearch q) w
      in case local_search e (clock w) q of
           Inl err \<Rightarrow> (Inl err, w1)
         | Inr (doc, best_score) \<Rightarrow>
             if best_score > 0.4 then
               (let result = (Str doc, best_score, ''Local KB (Similarity: '' @ format_2f e best_score @ '')'')
                in (Inr (Some result), w1\<lparr>cache := dict_set (cache w1) query_norm result\<rparr>))
             else (Inr None, w1))"

definition retrieval_predict :: "env \<Rightarrow> string \<Rightarrow> features \<Rightarrow> world \<Rightarrow> (py_error + triple) \<times> world" where
  "retrieval_predict e q f w =
     (let query_norm = strip (lower q)
      in if map_of (cache w) query_norm \<noteq> None then (dict_index (cache w) query_norm, w)
         else (case (if kb_loaded e then local_try e q query_norm w else (Inr None, w)) of
                 (Inr (Some result), w1) \<Rightarrow> (Inr result, w1)
               | (_, w1) \<Rightarrow>
                   (case fetch_from_web_apis e query_norm w1 of
                      (result, w2) \<Rightarrow>
                        if fst (snd result) > 0.1
                        then (Inr result, w2\<lparr>cache := dict_set (cache w2) query_norm result\<rparr>)
                        else (Inr result, w2))))"

section \<open>MLEngine\<close>

definition intent_patterns :: "(string \<times> string list) list" where
  "intent_patterns = [
     (''definition'', [''what is'', ''define'', ''meaning of'', ''explain'']),
     (''comparison'', [''difference between'', ''compare'', ''versus'', ''vs'', ''better than'']),
     (''procedure'', [''how to'', ''steps to'', ''process of'', ''guide for'', ''way to'']),
     (''reason'', [''why'', ''reason for'', ''cause of'', ''due to'']),
     (''example'', [''example of'', ''instance of'', ''sample'', ''show me'']),
     (''calculation'', [''calculate'', ''compute'', ''solve'', ''find value'', ''sum of'', ''avg'', ''average'', ''mean''])]"

definition is_digit :: "char \<Rightarrow> bool" where
  "is_digit c = (c \<in> set ''0123456789'')"

text \<open>What must follow a digit for \<open>\d+\s*[\+\-\*\/]\s*\d+\<close> to match there: optional white
  space, an operator, optional white space, a digit.\<close>

definition operator_then_digit :: "string \<Rightarrow> bool" where
  "operator_then_digit t =
     (case dropWhile is_space t of
        [] \<Rightarrow> False
      | c # rest \<Rightarrow> c \<in> set ''+-*/'' \<and>
                    (case dropWhile is_space rest of [] \<Rightarrow> False | d # _ \<Rightarrow> is_digit d))"

fun search_arithmetic :: "string \<Rightarrow> bool" where
  "search_arithmetic [] = False"
| "search_arithmetic (c # cs) = ((is_digit c \<and> operator_then_digit cs) \<or> search_arithmetic cs)"

definition is_calculation :: "string \<Rightarrow> bool" where
  "is_calculation q =
     ((\<exists>k \<in> set [''calculate'', ''solve'', ''plus'', ''minus'', ''times'', ''divided'',
                   ''avg'', ''average'', ''mean'', ''sum'']. py_in k (lower q))
      \<or> search_arithmetic (lower q))"

text \<open>\<open>_handle_calculation\<close>: the number parsing and formatting inside its \<open>try\<close> block
  are the oracle \<open>ml_calc_body\<close>; the handler and the final \<open>return\<close> are here.\<close>

definition handle_calculation :: "env \<Rightarrow> string \<Rightarrow> text_triple" where
  "handle_calculation e q =
     absorb (''Calculation not supported. I do basic math and averages.'', 0.4, ''Fallback'')
            (ml_calc_body e q)"

definition generate_intent_response :: "string \<Rightarrow> string" where
  "generate_intent_response intent_v =
     dict_get [(''definition'', ''This is a definition query. Use Retrieval for details.''),
               (''comparison'', ''This is a comparison query. Use Transformer for details.''),
               (''procedure'', ''This is a how-to query. Use Retrieval for details.''),
               (''reason'', ''This is a reasoning query. Use Transformer for details.''),
               (''example'', ''This is an example query. Use Transformer for details.''),
               (''calculation'', ''Calculation processed.'')]
              intent_v ''Intent recognized.''"

definition rule_based_fallback :: "string \<Rightarrow> text_triple" where
  "rule_based_fallback q =
     (case find (\<lambda>(intent_v, patterns). \<exists>p \<in> set patterns. py_in p (lower q)) intent_patterns of
        Some (intent_v, patterns) \<Rightarrow> (generate_intent_response intent_v, 0.4, ''Pattern: '' @ intent_v)
      | None \<Rightarrow> (''I'm not sure, but I'm learning!'', 0.1, ''Unknown''))"

text \<open>The \<open>try\<close> block of \<open>MLEngine.predict\<close>; its bare \<open>except\<close> passes.\<close>

definition classify_try :: "env \<Rightarrow> string \<Rightarrow> world \<Rightarrow> (py_error + text_triple option) \<times> world" where
  "classify_try e q w =
     (case ml_model e of
        None \<Rightarrow> (Inr None, w)
      | Some model \<Rightarrow>
          (case model (clock w) q of
             Inl err \<Rightarrow> (Inl err, log_event (Classify q) w)
           | Inr (intent_v, conf) \<Rightarrow>
               if conf > 0.3
               then (Inr (Some (generate_intent_response intent_v, conf, ''ML Intent: '' @ intent_v)),
                     log_event (Classify q) w)
               else (Inr None, log_event (Classify q) w)))"

definition ml_predict :: "env \<Rightarrow> string \<Rightarrow> features \<Rightarrow> world \<Rightarrow> (py_error + triple) \<times> world" where
  "ml_predict e q f w =
     (if q = [] then (Inr (Str [], 0.0, ''Empty query''), w)
      else if is_calculation q then (Inr (as_value (handle_calculation e q)), w)
      else (case classify_try e q w of
              (r, w1) \<Rightarrow> (Inr (as_value (absorb (rule_based_fallback q) r)), w1)))"

section \<open>TransformerEngine\<close>

definition sample_responses :: "(string \<times> (string \<times> string)) list" where
  "sample_responses = [
     (''explanation'', (''Let me explain this concept in detail. '',
        '' involves multiple interconnected aspects that work together to achieve the desired outcome. The key principles include understanding the fundamentals, applying systematic approaches, and iterating based on results.'')),
     (''reasoning'', (''To understand why this works, we need to consider the underlying mechanisms. The process relies on '',
        '' which enables the system to learn patterns from data and make informed decisions.'')),
     (''complex'', (''This is a multifaceted question that requires careful analysis. Several factors contribute to this phenomenon, including technical constraints, theoretical foundations, and practical considerations.'', []))]"

definition extract_topic :: "string \<Rightarrow> string" where
  "extract_topic q =
     (let words = split (lower q);
          meaningful_words = filter (\<lambda>w. w \<notin> set [''what'', ''is'', ''how'', ''why'', ''does'', ''do'',
                                                     ''can'', ''the'', ''a'', ''an''] \<and> length w > 3) words
      in if meaningful_words \<noteq> [] then join '' '' (take 3 meaningful_words) else ''the topic'')"

text \<open>\<open>_simulate_response\<close>. A template is kept as the text before and after its single
  placeholder; \<open>sample_responses[key]\<close> on a missing key raises.\<close>

definition simulate_response :: "string \<Rightarrow> features \<Rightarrow> py_error + text_triple" where
  "simulate_response q f =
     (if \<exists>word \<in> set [''why'', ''how'', ''explain'']. py_in word (lower q) then
        (case dict_index sample_responses ''explanation'' of
           Inl err \<Rightarrow> Inl err
         | Inr (before, after) \<Rightarrow>
             Inr (before @ (if extract_topic q \<noteq> [] then extract_topic q else ''this concept'') @ after,
                  0.82, ''Complex explanation requiring reasoning''))
      else if complexity f = Some ''high'' then
        (case dict_index sample_responses ''complex'' of
           Inl err \<Rightarrow> Inl err
         | Inr (before, after) \<Rightarrow> Inr (before, 0.78, ''High complexity query''))
      else
        (case dict_index sample_responses ''reasoning'' of
           Inl err \<Rightarrow> Inl err
         | Inr (before, after) \<Rightarrow>
             Inr (before @ (if extract_topic q \<noteq> [] then extract_topic q else ''the underlying principle'') @ after,
                  0.75, ''Reasoning required'')))"

definition governance_keywords :: "string list" where
  "governance_keywords = [''prime minister'', ''chief minister'', ''president'', ''governor'', ''current leader'']"

definition unverified :: string where
  "unverified = ''I don'' @ [CHR 0xE2, CHR 0x80, CHR 0x99] @ ''t have verified information for this query.''"

text \<open>\<open>TransformerEngine.predict\<close>. Tokenising, sampling from the model and the validation
  of the generated text all sit in one \<open>try\<close> block, the oracle \<open>generate_and_validate\<close>.\<close>

definition transformer_predict :: "env \<Rightarrow> string \<Rightarrow> features \<Rightarrow> world \<Rightarrow> (py_error + triple) \<times> world" where
  "transformer_predict e q f w =
     (if simulation_mode e then
        (case simulate_response q f of Inl err \<Rightarrow> (Inl err, w) | Inr t \<Rightarrow> (Inr (as_value t), w))
      else if \<exists>kw \<in> set governance_keywords. py_in kw (lower q) then
        (Inr (Str ''I am restricted from generating responses about active political leaders or governance to prevent hallucinations. Please use the Retrieval strategy.'',
              0.0, ''Governance Block (Policy)''), w)
      else (case generate_and_validate e (clock w) q of
              Inr t \<Rightarrow> (Inr (as_value t), log_event (Generate q) w)
            | Inl err \<Rightarrow> (Inr (Str unverified, 0.0, ''Inference Error: '' @ error_text e err),
                          log_event (Generate q) w)))"

section \<open>StrategySelector.execute\_strategy\<close>

type_synonym predictor = "string \<Rightarrow> features \<Rightarrow> world \<Rightarrow> (py_error + triple) \<times> world"

text \<open>\<open>self.strategies\<close>.\<close>

definition strategies :: "env \<Rightarrow> (string \<times> predictor) list" where
  "strategies e = [(''Rule-Based'', \<lambda>q f w. (Inr (as_value (rule_predict q f)), w)),
                   (''Retrieval'', retrieval_predict e),
                   (''Classical ML'', ml_predict e),
                   (''Transformer'', transformer_predict e)]"

definition safe_refusal :: string where
  "safe_refusal = ''I don'' @ [CHR 0xE2, CHR 0x80, CHR 0x99] @
     ''t have verified information for this query. Please refine the question or provide a trusted source.''"

text \<open>The content presence check, \<open>not answer or not answer.strip()\<close>: an empty or
  all-white-space answer, or any other false value, counts as no answer. A true value that
  is not a string has no \<open>strip\<close>: the call raises \<open>AttributeError\<close>.\<close>

definition presence_check :: "string \<Rightarrow> triple \<Rightarrow> py_error + triple" where
  "presence_check strategy_name t =
     (case t of (answer, confidence, reason) \<Rightarrow>
        if \<not> py_truthy answer then Inr (Str [], 0.0, ''Empty response from '' @ strategy_name)
        else (case answer of
                Other b p \<Rightarrow> Inl (AttributeError ''strip'')
              | Str a \<Rightarrow>
                  if strip a = [] then Inr (Str [], 0.0, ''Empty response from '' @ strategy_name)
                  else Inr (answer, confidence, reason)))"

text \<open>
  \<open>execute_strategy\<close> has no \<open>try\<close>: an exception of a dictionary lookup or of a
  \<open>predict\<close> ends it. Besides the outcome and the world the model returns the names of the
  strategies whose \<open>predict\<close> was called, in call order.
\<close>

type_synonym execution = "(py_error + py_value \<times> real \<times> string \<times> string) \<times> string list \<times> world"

definition fallback_exec :: "env \<Rightarrow> string \<Rightarrow> string \<Rightarrow> features \<Rightarrow> world \<Rightarrow> execution" where
  "fallback_exec e strategy_name q f w1 =
     (case dict_index (strategies e) ''Transformer'' of
        Inl err \<Rightarrow> (Inl err, [''Rule-Based'', strategy_name], w1)
      | Inr fallback_strategy \<Rightarrow>
          (case fallback_strategy q f w1 of
             (Inl err, w2) \<Rightarrow> (Inl err, [''Rule-Based'', strategy_name, ''Transformer''], w2)
           | (Inr (answer, confidence, reason), w2) \<Rightarrow>
               if confidence < 0.2
               then (Inr (Str safe_refusal, 0.0, ''Safe Failure: High Hallucination Risk ('' @ reason @ '')'',
                          ''Transformer''),
                     [''Rule-Based'', strategy_name, ''Transformer''], w2)
               else (Inr (answer, confidence, reason, ''Transformer''),
                     [''Rule-Based'', strategy_name, ''Transformer''], w2)))"

definition primary_exec :: "env \<Rightarrow> selector \<Rightarrow> string \<Rightarrow> string \<Rightarrow> features \<Rightarrow> world \<Rightarrow> execution" where
  "primary_exec e s strategy_name q f w0 =
     (let intent_v = get_str (intent f) ''general''
      in case dict_index (strategies e) strategy_name of
           Inl err \<Rightarrow> (Inl err, [''Rule-Based''], w0)
         | Inr strategy \<Rightarrow>
             (case strategy q f w0 of
                (Inl err, w1) \<Rightarrow> (Inl err, [''Rule-Based'', strategy_name], w1)
              | (Inr t, w1) \<Rightarrow>
                  (case presence_check strategy_name t of
                     Inl err \<Rightarrow> (Inl err, [''Rule-Based'', strategy_name], w1)
                   | Inr (answer, confidence, reason) \<Rightarrow>
                       if confidence < confidence_threshold s then
                         (if intent_v = ''factual'' \<or> strategy_name = ''Transformer''
                          then (Inr (Str safe_refusal, 0.0, ''Safe Failure: Confidence below threshold'',
                                     strategy_name),
                                [''Rule-Based'', strategy_name], w1)
                          else fallback_exec e strategy_name q f w1)
                       else (Inr (answer, confidence, reason, strategy_name),
                             [''Rule-Based'', strategy_name], w1))))"

definition execute_strategy :: "env \<Rightarrow> selector \<Rightarrow> string \<Rightarrow> string \<Rightarrow> features \<Rightarrow> world \<Rightarrow> execution" where
  "execute_strategy e s strategy_name q f w =
     (case dict_index (strategies e) ''Rule-Based'' of
        Inl err \<Rightarrow> (Inl err, [], w)
      | Inr rule_engine \<Rightarrow>
          (case rule_engine q f w of
             (Inl err, w0) \<Rightarrow> (Inl err, [''Rule-Based''], w0)
           | (Inr (rule_answer, rule_conf, rule_reason), w0) \<Rightarrow>
               if rule_conf \<ge> 0.9
               then (Inr (rule_answer, rule_conf, rule_reason, ''Rule-Based''), [''Rule-Based''], w0)
               else primary_exec e s strategy_name q f w0))"

section \<open>Auxiliary notions for the properties\<close>

text \<open>The shape every selector object has after \<open>__init__\<close> and keeps under feedback: both
  dictionaries have exactly the four strategy keys and every weight is positive.\<close>

definition keys_ok :: "selector \<Rightarrow> bool" where
  "keys_ok s = (map fst (strategy_weights s) = strategy_names \<and>
                map fst (strategy_success s) = strategy_names \<and>
                (\<forall>v \<in> set (map snd (strategy_weights s)). 0 < v))"

text \<open>The multiplied, not yet normalised weights.\<close>

definition scaled :: "(string \<times> real) list \<Rightarrow> string \<Rightarrow> bool \<Rightarrow> (string \<times> real) list" where
  "scaled w n b = map (\<lambda>(k, v). (k, if k = n then (if b then v * 1.1 else v * 0.9) else v)) w"

text \<open>A query matches the rule engine when it names a state under the wrong office, matches
  a restricted pattern, or contains the key of a static rule.\<close>

definition rule_matches :: "string \<Rightarrow> bool" where
  "rule_matches q =
     (let query_lower = strip (lower q)
      in fst (is_invalid_role_query query_lower)
         \<or> (\<exists>p \<in> set restricted_patterns. re_search p query_lower)
         \<or> (\<exists>(key, answer) \<in> set static_rules. py_in key query_lower))"

text \<open>Two environments for concrete runs. In the first nothing outside the program works:
  no knowledge base, every request times out, no classifier, and the transformer runs in
  simulation mode. In the second the first provider times out on the first external call
  and answers afterwards.\<close>

definition offline_env :: env where
  "offline_env = \<lparr>
     kb_loaded = False,
     local_search = (\<lambda>n q. Inl (OtherException ''no index'')),
     format_2f = (\<lambda>x. ''0.00''),
     ddg_get = (\<lambda>n q. Raised Timeout),
     wiki_summary_get = (\<lambda>n q. Raised Timeout),
     wiki_search_get = (\<lambda>n q. Raised Timeout),
     recursion_limit = 1000,
     ml_model = None,
     ml_calc_body = (\<lambda>q. Inr None),
     simulation_mode = True,
     generate_and_validate = (\<lambda>n q. Inl (OtherException ''no model'')),
     error_text = (\<lambda>err. ''no model'') \<rparr>"

definition flaky_env :: env where
  "flaky_env = offline_env\<lparr>
     ddg_get := (\<lambda>n q. if n = 0 then Raised Timeout
                        else Reply 200 (Inr \<lparr>abstract_text = Some (Str ''Python is a programming language.''),
                                               answer_field = None, definition_field = None\<rparr>)) \<rparr>"

text \<open>In the third the first provider answers with a well-formed JSON object whose
  \<open>Answer\<close> is itself an object, not a string.\<close>

definition object_answer_env :: env where
  "object_answer_env = offline_env\<lparr>
     ddg_get := (\<lambda>n q. Reply 200 (Inr \<lparr>abstract_text = Some (Str []),
                                          answer_field = Some (Other True ''{'from': 'calc', 'result': '4'}''),
                                          definition_field = Some (Str [])\<rparr>)) \<rparr>"

definition factual_features :: "string \<Rightarrow> features" where
  "factual_features q = \<lparr>query = Some q, length_field = Some (length q), has_number = Some False,
     intent = Some ''factual'', complexity = Some ''low'', is_rule_violation = Some False\<rparr>"

definition fresh_world :: world where
  "fresh_world = \<lparr>cache = [], trace = []\<rparr>"

definition general_features :: "string \<Rightarrow> features" where
  "general_features q = \<lparr>query = Some q, length_field = Some (length q), has_number = Some False,
     intent = Some ''general'', complexity = Some ''low'', is_rule_violation = Some False\<rparr>"

section \<open>Properties of the feedback loop\<close>

lemma distinct_strategy_names: "distinct strategy_names"
  by (simp add: strategy_names_def)

lemma dict_index_present:
  "k \<in> set (map fst d) \<Longrightarrow> \<exists>v. dict_index d k = Inr v \<and> map_of d k = Some v"
  by (cases "map_of d k") (auto simp: dict_index_def map_of_eq_None_iff)

lemma dict_index_absent:
  "k \<notin> set (map fst d) \<Longrightarrow> dict_index d k = Inl (KeyError k)"
proof -
  assume "k \<notin> set (map fst d)"
  then have "map_of d k = None" by (simp add: map_of_eq_None_iff)
  then show ?thesis by (simp add: dict_index_def)
qed

lemma dict_set_keys: "k \<in> set (map fst d) \<Longrightarrow> map fst (dict_set d k v) = map fst d"
  by (induction d) force+

lemma dict_set_as_map:
  "k \<in> set (map fst d) \<Longrightarrow> distinct (map fst d) \<Longrightarrow>
   dict_set d k v = map (\<lambda>(k', v'). (k', if k' = k then v else v')) d"
proof (induction d)
  case Nil
  then show ?case by simp
next
  case (Cons a d)
  obtain k' v' where a: "a = (k', v')" by (cases a)
  show ?case
  proof (cases "k' = k")
    case True
    with Cons.prems a have "k \<notin> set (map fst d)" by auto
    then have "map (\<lambda>(k', v'). (k', if k' = k then v else v')) d = d"
      by (induction d) auto
    with True a show ?thesis by simp
  next
    case False
    with Cons a show ?thesis by auto
  qed
qed

lemma sum_weights_scale: "sum_weights (map (\<lambda>(k, v). (k, v / t)) w) = sum_weights w / t"
  by (induction w) (auto simp: sum_weights_def add_divide_distrib)

lemma sum_weights_pos:
  "w \<noteq> [] \<Longrightarrow> \<forall>v \<in> set (map snd w). 0 < v \<Longrightarrow> 0 < sum_weights w"
proof (induction w)
  case Nil
  then show ?case by simp
next
  case (Cons a w)
  show ?case
  proof (cases w)
    case Nil
    with Cons.prems show ?thesis by (simp add: sum_weights_def)
  next
    case (Cons b w')
    with Cons.IH Cons.prems have "0 < sum_weights w" by simp
    moreover from Cons.prems have "0 < snd a" by simp
    ultimately show ?thesis by (simp add: sum_weights_def)
  qed
qed

lemma update_weights:
  assumes "keys_ok s" "n \<in> set strategy_names"
  shows "fst (update_from_feedback s n b) = None"
    and "strategy_weights (snd (update_from_feedback s n b)) =
         map (\<lambda>(k, v). (k, v / sum_weights (scaled (strategy_weights s) n b))) (scaled (strategy_weights s) n b)"
    and "map fst (strategy_success (snd (update_from_feedback s n b))) = strategy_names"
    and "0 < sum_weights (scaled (strategy_weights s) n b)"
proof -
  from assms have n_s: "n \<in> set (map fst (strategy_success s))"
    and n_w: "n \<in> set (map fst (strategy_weights s))"
    and dw: "distinct (map fst (strategy_weights s))"
    and pos: "\<forall>v \<in> set (map snd (strategy_weights s)). 0 < v"
    and ne: "strategy_weights s \<noteq> []"
    by (auto simp: keys_ok_def distinct_strategy_names strategy_names_def)
  from dict_index_present[OF n_s] obtain c where c: "dict_index (strategy_success s) n = Inr c" by blast
  from dict_index_present[OF n_w] obtain w where w: "dict_index (strategy_weights s) n = Inr w"
    and mw: "map_of (strategy_weights s) n = Some w" by blast
  have sc: "dict_set (strategy_weights s) n (if b then w * 1.1 else w * 0.9) = scaled (strategy_weights s) n b"
    unfolding scaled_def dict_set_as_map[OF n_w dw]
    using mw dw by (auto dest: map_of_SomeD simp: eq_key_imp_eq_value)
  have "\<forall>v \<in> set (map snd (scaled (strategy_weights s) n b)). 0 < v"
    using pos by (auto simp: scaled_def)
  moreover have "scaled (strategy_weights s) n b \<noteq> []"
    using ne by (simp add: scaled_def)
  ultimately show tp: "0 < sum_weights (scaled (strategy_weights s) n b)"
    by (rule sum_weights_pos[rotated])
  show "fst (update_from_feedback s n b) = None"
    using tp by (simp add: update_from_feedback_def c w sc Let_def)
  show "strategy_weights (snd (update_from_feedback s n b)) =
         map (\<lambda>(k, v). (k, v / sum_weights (scaled (strategy_weights s) n b))) (scaled (strategy_weights s) n b)"
    using tp by (simp add: update_from_feedback_def c w sc Let_def)
  show "map fst (strategy_success (snd (update_from_feedback s n b))) = strategy_names"
    using tp assms(1) n_s by (simp add: update_from_feedback_def c w sc Let_def dict_set_keys keys_ok_def)
qed


lemma update_unknown:
  assumes "keys_ok s" "n \<notin> set strategy_names"
  shows "update_from_feedback s n b = (Some (KeyError n), s)"
proof -
  from assms have "n \<notin> set (map fst (strategy_success s))" by (simp add: keys_ok_def)
  then show ?thesis by (simp add: update_from_feedback_def dict_index_absent)
qed

lemma keys_ok_update:
  assumes "keys_ok s"
  shows "keys_ok (snd (update_from_feedback s n b))"
proof (cases "n \<in> set strategy_names")
  case True
  note u = update_weights[OF assms True, of b]
  have "\<forall>v \<in> set (map snd (scaled (strategy_weights s) n b)). 0 < v"
    using assms by (auto simp: scaled_def keys_ok_def)
  with u(4) have "\<forall>v \<in> set (map snd (strategy_weights (snd (update_from_feedback s n b)))). 0 < v"
    unfolding u(2) by auto
  moreover have "map fst (strategy_weights (snd (update_from_feedback s n b))) = strategy_names"
    unfolding u(2) using assms by (simp add: scaled_def keys_ok_def case_prod_unfold comp_def)
  ultimately show ?thesis using u(3) by (simp add: keys_ok_def)
next
  case False
  with assms show ?thesis by (simp add: update_unknown)
qed

lemma keys_ok_init: "keys_ok init_selector"
  by (simp add: keys_ok_def init_selector_def strategy_names_def)

lemma keys_ok_run: "keys_ok s \<Longrightarrow> keys_ok (feedback_run s fs)"
  by (induction s fs rule: feedback_run.induct) (simp_all add: keys_ok_update)

lemma feedback_run_append:
  "feedback_run s (xs @ ys) = feedback_run (feedback_run s xs) ys"
  by (induction s xs rule: feedback_run.induct) simp_all

lemma sum_after_update:
  assumes "keys_ok s" "n \<in> set strategy_names"
  shows "sum_weights (strategy_weights (snd (update_from_feedback s n b))) = 1"
  using update_weights(4)[OF assms, of b]
  by (simp add: update_weights(2)[OF assms] sum_weights_scale)

text \<open>
  Claim C3. After every call of \<open>update_from_feedback\<close> for one of the four strategies,
  whatever calls came before it on the same object, the call returns without an exception
  and the strategy weights sum to 1 (exactly, in real arithmetic).
\<close>

theorem feedback_weights_sum_to_one:
  assumes "n \<in> set strategy_names"
  shows "fst (update_from_feedback (feedback_run init_selector fs) n b) = None \<and>
         sum_weights (strategy_weights (snd (update_from_feedback (feedback_run init_selector fs) n b))) = 1"
proof -
  have k: "keys_ok (feedback_run init_selector fs)"
    by (rule keys_ok_run[OF keys_ok_init])
  from update_weights(1)[OF k assms, of b] sum_after_update[OF k assms, of b]
  show ?thesis by simp
qed

theorem feedback_weights_sum_to_one_witness:
  "''Transformer'' \<in> set strategy_names \<and>
   fst (update_from_feedback (feedback_run init_selector [(''Retrieval'', True)]) ''Transformer'' False) = None \<and>
   sum_weights (strategy_weights (snd (update_from_feedback
     (feedback_run init_selector [(''Retrieval'', True)]) ''Transformer'' False))) = 1"
  using feedback_weights_sum_to_one [of "''Transformer''" "[(''Retrieval'', True)]" False]
  by (simp add: strategy_names_def)


section \<open>Properties of strategy selection\<close>

text \<open>The default row of \<open>CAPABILITY_MATRIX.get\<close> is the matrix's own row for \<open>general\<close>.\<close>

lemma general_row_is_matrix_row: "dict_index CAPABILITY_MATRIX ''general'' = Inr general_row"
  by (simp add: dict_index_def CAPABILITY_MATRIX_def general_row_def)

text \<open>
  Claim C1, as stated: every feature record with intent \<open>factual\<close> is routed to Retrieval,
  whatever \<open>is_rule_violation\<close> says. The safety check runs first: a factual record flagged
  as a rule violation is routed to Rule-Based.
\<close>

theorem factual_rule_violation_counterexample:
  "select_strategy init_selector
     \<lparr>query = Some ''what is the limit'', length_field = Some 17, has_number = Some False,
      intent = Some ''factual'', complexity = Some ''low'', is_rule_violation = Some True\<rparr> \<noteq> ''Retrieval''"
  by (simp add: select_strategy_def truthy_def)

text \<open>
  Claim C1, amended: for every feature record with intent \<open>factual\<close>, whatever the weights,
  the complexity and the other fields, \<open>select_strategy\<close> returns Retrieval when
  \<open>is_rule_violation\<close> is absent or false, and Rule-Based when it is true.
\<close>

theorem factual_selects_retrieval:
  "intent f = Some ''factual'' \<Longrightarrow>
   select_strategy s f = (if truthy (is_rule_violation f) then ''Rule-Based'' else ''Retrieval'')"
  by (simp add: select_strategy_def get_str_def)

theorem factual_selects_retrieval_witness:
  "intent \<lparr>query = Some ''what is python'', length_field = Some 14, has_number = Some False,
      intent = Some ''factual'', complexity = Some ''high'', is_rule_violation = Some False\<rparr> = Some ''factual'' \<and>
   select_strategy init_selector
     \<lparr>query = Some ''what is python'', length_field = Some 14, has_number = Some False,
      intent = Some ''factual'', complexity = Some ''high'', is_rule_violation = Some False\<rparr> = ''Retrieval''"
  using factual_selects_retrieval [of "\<lparr>query = Some ''what is python'', length_field = Some 14, has_number = Some False,
      intent = Some ''factual'', complexity = Some ''high'', is_rule_violation = Some False\<rparr>" init_selector]
  by (simp add: truthy_def)

text \<open>
  Claim C6. The guard does replace the Transformer base score by 0.1 for the intent
  \<open>calculation\<close>, but the score still receives the context bonus of 3.0 for a query of high
  complexity. After eleven failure feedbacks for Classical ML the weights make every other
  score smaller than that bonus, and the record the analyzer builds for the query
  \<open>calculate and explain the sum\<close> (intent \<open>calculation\<close>, complexity \<open>high\<close>, no rule
  violation, no factual indicator) is routed to the Transformer.
\<close>

theorem transformer_selected_for_calculation: "base_score ''calculation'' ''Transformer'' = 0.1 \<and>
  select_strategy (feedback_run init_selector (replicate 11 (''Classical ML'', False)))
     \<lparr>query = Some ''calculate and explain the sum'', length_field = Some 29, has_number = Some False,
      intent = Some ''calculation'', complexity = Some ''high'', is_rule_violation = Some False\<rparr> = ''Transformer''"
proof -
  have w: "strategy_weights (feedback_run init_selector (replicate 11 (''Classical ML'', False))) =
    [(''Rule-Based'', 100000000000 / 331381059609), (''Retrieval'', 100000000000 / 331381059609),
     (''Classical ML'', 31381059609 / 331381059609), (''Transformer'', 100000000000 / 331381059609)]"
    by (simp add: eval_nat_numeral update_from_feedback_def init_selector_def dict_index_def sum_weights_def Let_def)
  have b: "base_score ''calculation'' ''Transformer'' = 0.1"
    by (simp add: base_score_def)
  have "select_strategy (feedback_run init_selector (replicate 11 (''Classical ML'', False)))
     \<lparr>query = Some ''calculate and explain the sum'', length_field = Some 29, has_number = Some False,
      intent = Some ''calculation'', complexity = Some ''high'', is_rule_violation = Some False\<rparr> = ''Transformer''"
    by (simp add: select_strategy_def truthy_def get_str_def lower_def lower_char_def ascii_uppercase_def ascii_lowercase_def
        factual_indicators_def best_strategy_def scores_def strategy_names_def final_utility_def
        base_score_def context_bonus_def dict_get_def CAPABILITY_MATRIX_def w)
  with b show ?thesis by simp
qed

section \<open>Statistics\<close>

lemma stats_loop_entry:
  "stats_loop s ns = Inr st \<Longrightarrow> n \<in> set ns \<Longrightarrow> dict_index (strategy_success s) n = Inr c \<Longrightarrow>
   \<exists>r. map_of st n = Some r \<and> total_uses r = total c \<and>
       success_rate r = (if total c = 0 then 0.5 else real (success c) / real (total c))"
proof (induction ns arbitrary: st)
  case Nil
  then show ?case by simp
next
  case (Cons m ns)
  from Cons.prems(1) obtain r w c' rest where
    parts: "get_success_rate s m = Inr r" "dict_index (strategy_weights s) m = Inr w"
           "dict_index (strategy_success s) m = Inr c'" "stats_loop s ns = Inr rest"
           "st = (m, \<lparr>weight = w, success_rate = r, total_uses = total c'\<rparr>) # rest"
    by (auto split: sum.splits)
  show ?case
  proof (cases "n = m")
    case True
    with parts Cons.prems(3) show ?thesis
      by (auto simp: get_success_rate_def split: if_splits)
  next
    case False
    with Cons.prems(2) have "n \<in> set ns" by simp
    from Cons.IH[OF parts(4) this Cons.prems(3)] False parts(5) show ?thesis by simp
  qed
qed

lemma stats_loop_returns:
  "keys_ok s \<Longrightarrow> set ns \<subseteq> set strategy_names \<Longrightarrow> \<exists>st. stats_loop s ns = Inr st"
proof (induction ns)
  case Nil
  then show ?case by simp
next
  case (Cons m ns)
  then have m: "m \<in> set (map fst (strategy_success s))" "m \<in> set (map fst (strategy_weights s))"
    by (simp_all add: keys_ok_def)
  from dict_index_present[OF m(1)] obtain c where c: "dict_index (strategy_success s) m = Inr c" by blast
  from dict_index_present[OF m(2)] obtain w where w: "dict_index (strategy_weights s) m = Inr w" by blast
  from Cons obtain rest where "stats_loop s ns = Inr rest" by auto
  with c w show ?case by (simp add: get_success_rate_def)
qed

text \<open>
  Claim C10. For a selector with any feedback history and a strategy whose counters record
  no feedback event, \<open>_get_success_rate\<close> returns 0.5 without a division, and
  \<open>get_strategy_stats\<close> returns a dictionary whose entry for that strategy has
  \<open>success_rate\<close> 0.5.
\<close>

theorem untested_success_rate_is_half:
  assumes "n \<in> set strategy_names"
    and "dict_index (strategy_success (feedback_run init_selector fs)) n = Inr c"
    and "total c = 0"
  shows "get_success_rate (feedback_run init_selector fs) n = Inr 0.5 \<and>
         (\<exists>st r. get_strategy_stats (feedback_run init_selector fs) = Inr st \<and>
                  map_of st n = Some r \<and> success_rate r = 0.5)"
proof -
  let ?s = "feedback_run init_selector fs"
  have k: "keys_ok ?s" by (intro keys_ok_run keys_ok_init)
  from stats_loop_returns[OF k subset_refl] obtain st where st: "get_strategy_stats ?s = Inr st"
    by (auto simp: get_strategy_stats_def)
  from stats_loop_entry[OF st[unfolded get_strategy_stats_def] assms(1,2)] assms(3)
  obtain r where "map_of st n = Some r" "success_rate r = 0.5" by auto
  with st assms(2,3) show ?thesis by (auto simp: get_success_rate_def)
qed

theorem untested_success_rate_is_half_witness:
  "''Retrieval'' \<in> set strategy_names \<and>
   dict_index (strategy_success (feedback_run init_selector [(''Transformer'', True)])) ''Retrieval''
      = Inr \<lparr>success = 0, total = 0\<rparr> \<and>
   total \<lparr>success = 0, total = 0\<rparr> = 0 \<and>
   get_success_rate (feedback_run init_selector [(''Transformer'', True)]) ''Retrieval'' = Inr 0.5 \<and>
   (\<exists>st r. get_strategy_stats (feedback_run init_selector [(''Transformer'', True)]) = Inr st \<and>
            map_of st ''Retrieval'' = Some r \<and> success_rate r = 0.5)"
proof -
  have d: "dict_index (strategy_success (feedback_run init_selector [(''Transformer'', True)])) ''Retrieval''
      = Inr \<lparr>success = 0, total = 0\<rparr>"
    by (simp add: update_from_feedback_def init_selector_def dict_index_def sum_weights_def Let_def)
  have n: "''Retrieval'' \<in> set strategy_names" by (simp add: strategy_names_def)
  from untested_success_rate_is_half [OF n d] n d show ?thesis by simp
qed

section \<open>Concrete runs of the engines\<close>

lemmas str_eval = lower_def lower_char_def ascii_uppercase_def ascii_lowercase_def strip_def is_space_def

lemma rule_hack: "rule_predict ''how to hack wifi'' f = (safety_refusal, 1, ''Safety Rule Violation Blocked'')"
  by (simp add: rule_predict_def is_invalid_role_query_def str_eval restricted_patterns_def Let_def)

lemma rule_nothing: "rule_predict ''tell me something'' f = ([], 0, ''No rule matched'')"
  by (simp add: rule_predict_def is_invalid_role_query_def str_eval restricted_patterns_def static_rules_def Let_def)

lemma ml_nothing:
  "ml_predict offline_env ''tell me something'' f fresh_world =
     (Inr (Str ''I'm not sure, but I'm learning!'', 0.1, ''Unknown''), fresh_world)"
  by (simp add: ml_predict_def is_calculation_def str_eval classify_try_def offline_env_def absorb_def
      rule_based_fallback_def intent_patterns_def is_digit_def as_value_def)

lemma rule_what_is_python: "rule_predict ''What is Python?'' f = ([], 0, ''No rule matched'')"
  by (simp add: rule_predict_def is_invalid_role_query_def str_eval restricted_patterns_def static_rules_def Let_def)

lemmas web_eval = retrieval_predict_def fetch_from_web_apis_def fetch_duckduckgo_def ddg_try_def ddg_answer_def
  opt_truthy_def absorb_def fetch_wikipedia_def log_event_def clock_def wikipedia_unavailable_def
  replace_def title_def is_upper_def is_lower_def upper_char_def Let_def

lemma retrieval_flaky_first:
  "retrieval_predict flaky_env ''python'' f fresh_world =
     (Inr (Str [], 0, ''Web retrieval failed (all APIs exhausted)''),
      \<lparr>cache = [], trace = [DuckDuckGo ''python'', WikiSummary ''Python'']\<rparr>)"
  by (simp add: web_eval flaky_env_def offline_env_def fresh_world_def str_eval eval_nat_numeral)

lemma retrieval_flaky_second:
  "retrieval_predict flaky_env ''python'' f \<lparr>cache = [], trace = [DuckDuckGo ''python'', WikiSummary ''Python'']\<rparr> =
     (Inr (Str ''Python is a programming language.'', 0.85, ''Web Retrieval (DuckDuckGo IA)''),
      \<lparr>cache = [(''python'', (Str ''Python is a programming language.'', 0.85, ''Web Retrieval (DuckDuckGo IA)''))],
       trace = [DuckDuckGo ''python'', WikiSummary ''Python'', DuckDuckGo ''python'']\<rparr>)"
  by (simp add: web_eval flaky_env_def offline_env_def str_eval)

lemma retrieval_object_answer:
  "retrieval_predict object_answer_env ''What is Python?'' f fresh_world =
     (Inr (Other True ''{'from': 'calc', 'result': '4'}'', 0.85, ''Web Retrieval (DuckDuckGo IA)''),
      \<lparr>cache = [(''what is python?'',
                  (Other True ''{'from': 'calc', 'result': '4'}'', 0.85, ''Web Retrieval (DuckDuckGo IA)''))],
       trace = [DuckDuckGo ''what is python?'']\<rparr>)"
  by (simp add: web_eval object_answer_env_def offline_env_def fresh_world_def str_eval)

section \<open>Exceptions at the engine and executor boundaries\<close>

lemma not_isl_Inr: "\<not> isl x \<Longrightarrow> \<exists>v. x = Inr v"
  by (cases x) auto

lemma simulate_response_returns: "\<not> isl (simulate_response q f)"
  by (simp add: simulate_response_def dict_index_def sample_responses_def)

lemma transformer_predict_returns: "\<not> isl (fst (transformer_predict e q f w))"
proof -
  from not_isl_Inr[OF simulate_response_returns] obtain t where "simulate_response q f = Inr t" by blast
  then show ?thesis
    by (cases "generate_and_validate e (clock w) q") (simp_all add: transformer_predict_def)
qed

lemma ml_predict_returns: "\<not> isl (fst (ml_predict e q f w))"
  by (cases "classify_try e q w") (simp add: ml_predict_def)

lemma retrieval_predict_returns: "\<not> isl (fst (retrieval_predict e q f w))"
proof (cases "map_of (cache w) (strip (lower q))")
  case (Some t)
  then show ?thesis by (simp add: retrieval_predict_def dict_index_def del: split_paired_Ex)
next
  case None
  obtain r w1 where l: "(if kb_loaded e then local_try e q (strip (lower q)) w else (Inr None, w)) = (r, w1)"
    by (cases "if kb_loaded e then local_try e q (strip (lower q)) w else (Inr None, w)")
  obtain t w2 where wb: "fetch_from_web_apis e (strip (lower q)) w1 = (t, w2)"
    by (cases "fetch_from_web_apis e (strip (lower q)) w1")
  show ?thesis
    unfolding retrieval_predict_def Let_def using None l wb
    by (simp split: sum.splits option.splits)
qed

text \<open>Each of the four engines returns a triple, whatever its providers and models do.\<close>

lemma registry_lookup:
  assumes "name \<in> set strategy_names"
  shows "\<exists>p. dict_index (strategies e) name = Inr p \<and> (\<forall>q f w. \<not> isl (fst (p q f w)))"
proof -
  from assms consider "name = ''Rule-Based''" | "name = ''Retrieval''" | "name = ''Classical ML''"
    | "name = ''Transformer''" by (auto simp: strategy_names_def)
  then show ?thesis
  proof cases
    case 1
    then show ?thesis by (simp add: dict_index_def strategies_def)
  next
    case 2
    then show ?thesis using retrieval_predict_returns by (simp add: dict_index_def strategies_def)
  next
    case 3
    then show ?thesis using ml_predict_returns by (simp add: dict_index_def strategies_def)
  next
    case 4
    then show ?thesis using transformer_predict_returns by (simp add: dict_index_def strategies_def)
  qed
qed

lemma rule_engine_lookup:
  "dict_index (strategies e) ''Rule-Based'' = Inr (\<lambda>q f w. (Inr (as_value (rule_predict q f)), w))"
  by (simp add: dict_index_def strategies_def)

lemma transformer_lookup:
  "dict_index (strategies e) ''Transformer'' = Inr (transformer_predict e)"
  by (simp add: dict_index_def strategies_def)

lemma fallback_exec_returns: "\<not> isl (fst (fallback_exec e name q f w))"
proof -
  obtain r w' where tp: "transformer_predict e q f w = (r, w')" by (cases "transformer_predict e q f w")
  with transformer_predict_returns[of e q f w] obtain t where "r = Inr t"
    by (auto dest: not_isl_Inr)
  with tp show ?thesis
    by (cases t) (simp add: fallback_exec_def transformer_lookup)
qed

lemma max_from_in: "max_from best bv d = best \<or> max_from best bv d \<in> set (map fst d)"
  by (induction best bv d rule: max_from.induct) auto

lemma select_strategy_registered: "select_strategy s f \<in> set strategy_names"
proof -
  have "best_strategy (scores s f) \<in> set strategy_names"
    using max_from_in[of "''Rule-Based''" "final_utility s f ''Rule-Based''"
        "map (\<lambda>n. (n, final_utility s f n)) [''Retrieval'', ''Classical ML'', ''Transformer'']"]
    by (auto simp: best_strategy_def scores_def strategy_names_def)
  then show ?thesis
    by (simp add: select_strategy_def Let_def strategy_names_def)
qed

text \<open>The presence check is the one statement of \<open>execute_strategy\<close> that can raise for a
  registered strategy, and it raises on nothing but a true answer that is not a string.\<close>

lemma presence_check_raises:
  "presence_check name (answer, confidence, reason) = Inl err \<Longrightarrow>
   err = AttributeError ''strip'' \<and> py_truthy answer \<and> (\<forall>a. answer \<noteq> Str a)"
  by (cases answer) (auto simp: presence_check_def split: if_splits)

lemma primary_exec_raises:
  assumes "name \<in> set strategy_names" "fst (primary_exec e s name q f w) = Inl err"
  shows "err = AttributeError ''strip''"
proof -
  from registry_lookup[OF assms(1)] obtain p where
    p: "dict_index (strategies e) name = Inr p" "\<And>q f w. \<not> isl (fst (p q f w))" by blast
  obtain r w1 where pr: "p q f w = (r, w1)" by (cases "p q f w")
  with p(2)[of q f w] obtain t where t: "r = Inr t" by (auto dest: not_isl_Inr)
  obtain a c rs where tt: "t = (a, c, rs)" by (cases t)
  show ?thesis
  proof (cases "presence_check name (a, c, rs)")
    case (Inl err')
    with assms(2) have "err = err'" by (simp add: primary_exec_def p(1) pr t tt Let_def)
    with presence_check_raises[OF Inl] show ?thesis by simp
  next
    case (Inr u)
    obtain a' c' r' where u: "u = (a', c', r')" by (cases u)
    from assms(2) fallback_exec_returns[of e name q f w1] show ?thesis
      by (simp add: primary_exec_def p(1) pr t tt Inr u Let_def split: if_splits)
  qed
qed

lemma execute_strategy_raises:
  assumes "name \<in> set strategy_names" "fst (execute_strategy e s name q f w) = Inl err"
  shows "err = AttributeError ''strip''"
proof -
  obtain a c r where rp: "rule_predict q f = (a, c, r)" by (cases "rule_predict q f")
  from assms(2) have "fst (primary_exec e s name q f w) = Inl err"
    by (simp add: execute_strategy_def rule_engine_lookup rp as_value_def split: if_splits)
  with primary_exec_raises[OF assms(1)] show ?thesis by blast
qed

text \<open>
  Claim C5. Every engine absorbs the failures of its providers inside its own \<open>try\<close>
  blocks, and \<open>execute_strategy\<close> has none. A provider reply that decodes without error
  is not a failure for the retrieval engine: when DuckDuckGo answers the analyzer's factual
  query \<open>What is Python?\<close> with a JSON object under \<open>Answer\<close>, \<open>select_strategy\<close> has
  chosen Retrieval, the engine returns that object as its answer with confidence 0.85 and
  caches it, and \<open>answer.strip()\<close> in \<open>execute_strategy\<close> raises \<open>AttributeError\<close>,
  which leaves \<open>execute_strategy\<close>.
\<close>

theorem object_answer_escapes:
  "select_strategy init_selector (factual_features ''what is python?'') = ''Retrieval'' \<and>
   execute_strategy object_answer_env init_selector ''Retrieval'' ''What is Python?''
       (factual_features ''what is python?'') fresh_world =
     (Inl (AttributeError ''strip''), [''Rule-Based'', ''Retrieval''],
      \<lparr>cache = [(''what is python?'',
                  (Other True ''{'from': 'calc', 'result': '4'}'', 0.85, ''Web Retrieval (DuckDuckGo IA)''))],
       trace = [DuckDuckGo ''what is python?'']\<rparr>)"
proof -
  have 1: "select_strategy init_selector (factual_features ''what is python?'') = ''Retrieval''"
    by (simp add: select_strategy_def factual_features_def truthy_def get_str_def)
  have 2: "dict_index (strategies object_answer_env) ''Retrieval'' = Inr (retrieval_predict object_answer_env)"
    by (simp add: dict_index_def strategies_def)
  have 3: "execute_strategy object_answer_env init_selector ''Retrieval'' ''What is Python?''
       (factual_features ''what is python?'') fresh_world =
     (Inl (AttributeError ''strip''), [''Rule-Based'', ''Retrieval''],
      \<lparr>cache = [(''what is python?'',
                  (Other True ''{'from': 'calc', 'result': '4'}'', 0.85, ''Web Retrieval (DuckDuckGo IA)''))],
       trace = [DuckDuckGo ''what is python?'']\<rparr>)"
    by (simp add: execute_strategy_def rule_engine_lookup rule_what_is_python as_value_def primary_exec_def 2
        retrieval_object_answer presence_check_def)
  from 1 3 show ?thesis by simp
qed

section \<open>The rule guard\<close>

lemma find_Some_holds: "find P xs = Some x \<Longrightarrow> x \<in> set xs \<and> P x"
  by (induction xs) (auto split: if_splits)

lemma rule_predict_confidence:
  "fst (snd (rule_predict q f)) = (if rule_matches q then 1.0 else 0.0)"
proof -
  let ?ql = "strip (lower q)"
  obtain inv corr where i: "is_invalid_role_query ?ql = (inv, corr)" by (cases "is_invalid_role_query ?ql")
  show ?thesis
  proof (cases inv)
    case True
    with i show ?thesis by (simp add: rule_predict_def rule_matches_def)
  next
    case False
    show ?thesis
    proof (cases "\<exists>p \<in> set restricted_patterns. re_search p ?ql")
      case True
      with i False show ?thesis by (simp add: rule_predict_def rule_matches_def)
    next
      case nr: False
      show ?thesis
      proof (cases "find (\<lambda>(key, answer). py_in key ?ql) static_rules")
        case None
        then have "\<not> (\<exists>(key, answer) \<in> set static_rules. py_in key ?ql)"
          by (auto simp: find_None_iff)
        with i False nr None show ?thesis by (simp add: rule_predict_def rule_matches_def)
      next
        case (Some ka)
        then have "\<exists>(key, answer) \<in> set static_rules. py_in key ?ql"
          by (auto dest: find_Some_holds)
        with i False nr Some show ?thesis by (cases ka) (simp add: rule_predict_def rule_matches_def)
      qed
    qed
  qed
qed

text \<open>
  Claim C4. For every selected strategy, query and feature record the first \<open>predict\<close>
  that \<open>execute_strategy\<close> calls is the rule engine's. When the rule engine reports a
  confidence of at least 0.9, \<open>execute_strategy\<close> returns the rule engine's triple with
  strategy \<open>Rule-Based\<close>, having called no other \<open>predict\<close> and left the world as it was.
  The rule engine reports 1.0 exactly when the query matches a role-entity mismatch, a
  restricted pattern or a static rule, and 0.0 otherwise.
\<close>

theorem rule_guard_runs_first:
  "(\<exists>rest. fst (snd (execute_strategy e s name q f w)) = ''Rule-Based'' # rest) \<and>
   (0.9 \<le> fst (snd (rule_predict q f)) \<longrightarrow>
      execute_strategy e s name q f w =
        (Inr (Str (fst (rule_predict q f)), fst (snd (rule_predict q f)), snd (snd (rule_predict q f)),
              ''Rule-Based''),
         [''Rule-Based''], w)) \<and>
   fst (snd (rule_predict q f)) = (if rule_matches q then 1.0 else 0.0)"
proof -
  obtain a c r where rp: "rule_predict q f = (a, c, r)" by (cases "rule_predict q f")
  have 1: "\<exists>rest. fst (snd (execute_strategy e s name q f w)) = ''Rule-Based'' # rest"
  proof (cases "0.9 \<le> c")
    case True
    then show ?thesis by (simp add: execute_strategy_def rule_engine_lookup rp as_value_def)
  next
    case False
    have "\<exists>rest. fst (snd (primary_exec e s name q f w)) = ''Rule-Based'' # rest"
      by (auto simp: primary_exec_def fallback_exec_def Let_def transformer_lookup
          split: sum.splits prod.splits)
    with False show ?thesis by (simp add: execute_strategy_def rule_engine_lookup rp as_value_def)
  qed
  have 2: "0.9 \<le> fst (snd (rule_predict q f)) \<longrightarrow>
      execute_strategy e s name q f w =
        (Inr (Str (fst (rule_predict q f)), fst (snd (rule_predict q f)), snd (snd (rule_predict q f)),
              ''Rule-Based''),
         [''Rule-Based''], w)"
    by (simp add: execute_strategy_def rule_engine_lookup rp as_value_def)
  from 1 2 rule_predict_confidence show ?thesis by blast
qed

theorem rule_guard_runs_first_witness:
  "0.9 \<le> fst (snd (rule_predict ''how to hack wifi'' (general_features ''how to hack wifi''))) \<and>
   execute_strategy offline_env init_selector ''Retrieval'' ''how to hack wifi''
       (general_features ''how to hack wifi'') fresh_world =
     (Inr (Str safety_refusal, 1, ''Safety Rule Violation Blocked'', ''Rule-Based''), [''Rule-Based''], fresh_world)"
  using rule_guard_runs_first [of offline_env init_selector "''Retrieval''" "''how to hack wifi''"
              "general_features ''how to hack wifi''" fresh_world]
  by (simp add: rule_hack)

section \<open>The low-confidence policy\<close>

lemma threshold_update:
  "confidence_threshold (snd (update_from_feedback s n b)) = confidence_threshold s"
  by (simp add: update_from_feedback_def Let_def split: sum.splits)

lemma threshold_run: "confidence_threshold (feedback_run s fs) = confidence_threshold s"
  by (induction s fs rule: feedback_run.induct) (simp_all add: threshold_update)

lemma threshold_reachable: "confidence_threshold (feedback_run init_selector fs) = 0.35"
  by (simp add: threshold_run) (simp add: init_selector_def)

lemma presence_check_returns:
  assumes "\<And>p. answer \<noteq> Other True p"
  shows "\<exists>a c r. presence_check name (answer, confidence, reason) = Inr (a, c, r) \<and>
                 (c = confidence \<or> c = 0)"
proof (cases answer)
  case (Str x)
  then show ?thesis by (simp add: presence_check_def)
next
  case (Other b p)
  with assms have "\<not> b" by (cases b) auto
  with Other show ?thesis by (simp add: presence_check_def)
qed

text \<open>
  Claim C2. Take an execution in which the rule guard does not fire and the selected
  strategy's \<open>predict\<close> returns a confidence below 0.35, on a selector with any feedback
  history. The answer is a string or a false value: a true answer that is not a string ends
  the execution in the presence check, before the policy is reached. If the
  intent is \<open>factual\<close> or the selected strategy is the Transformer, the result
  is the fixed refusal with confidence 0.0 and the rationale of the threshold, no further
  \<open>predict\<close> is called and the world is the one the primary strategy left. Otherwise the
  Transformer's \<open>predict\<close> is called once, on that world, and returns; the strategy used is
  \<open>Transformer\<close>, and the result is the fixed refusal with the hallucination-risk rationale
  when the fallback's confidence is below 0.2, and the fallback's own triple otherwise.
\<close>

theorem low_confidence_policy:
  assumes guard: "fst (snd (rule_predict q f)) < 0.9"
    and reg: "dict_index (strategies e) name = Inr primary"
    and prim: "primary q f w = (Inr (answer, confidence, reason), w1)"
    and strip: "\<And>p. answer \<noteq> Other True p"
    and low: "confidence < 0.35"
  shows "if intent f = Some ''factual'' \<or> name = ''Transformer''
         then execute_strategy e (feedback_run init_selector fs) name q f w =
                (Inr (Str safe_refusal, 0, ''Safe Failure: Confidence below threshold'', name),
                 [''Rule-Based'', name], w1)
         else (\<exists>a2 c2 r2 w2. transformer_predict e q f w1 = (Inr (a2, c2, r2), w2) \<and>
                execute_strategy e (feedback_run init_selector fs) name q f w =
                  (Inr (if c2 < 0.2
                        then (Str safe_refusal, 0, ''Safe Failure: High Hallucination Risk ('' @ r2 @ '')'', ''Transformer'')
                        else (a2, c2, r2, ''Transformer'')),
                   [''Rule-Based'', name, ''Transformer''], w2))"
proof -
  let ?s = "feedback_run init_selector fs"
  obtain ra rc rr where rp: "rule_predict q f = (ra, rc, rr)" by (cases "rule_predict q f")
  with guard have g: "\<not> 0.9 \<le> rc" by simp
  from presence_check_returns[OF strip, of name confidence reason]
  obtain a c r where pc: "presence_check name (answer, confidence, reason) = Inr (a, c, r)"
    and "c = confidence \<or> c = 0"
    by blast
  with low have c: "c < confidence_threshold ?s"
    by (auto simp: threshold_reachable)
  have i: "(get_str (intent f) ''general'' = ''factual'') = (intent f = Some ''factual'')"
    by (cases "intent f") (simp_all add: get_str_def)
  have ex: "execute_strategy e ?s name q f w =
            (if intent f = Some ''factual'' \<or> name = ''Transformer''
             then (Inr (Str safe_refusal, 0, ''Safe Failure: Confidence below threshold'', name),
                   [''Rule-Based'', name], w1)
             else fallback_exec e name q f w1)"
    using g c by (simp add: execute_strategy_def rule_engine_lookup rp as_value_def primary_exec_def reg prim pc i Let_def)
  show ?thesis
  proof (cases "intent f = Some ''factual'' \<or> name = ''Transformer''")
    case True
    with ex show ?thesis by simp
  next
    case False
    obtain x w2 where tp: "transformer_predict e q f w1 = (x, w2)" by (cases "transformer_predict e q f w1")
    with transformer_predict_returns[of e q f w1] obtain t where "x = Inr t"
      by (auto dest: not_isl_Inr)
    then obtain a2 c2 r2 where x: "x = Inr (a2, c2, r2)" by (cases t) auto
    have "fallback_exec e name q f w1 =
          (Inr (if c2 < 0.2
                then (Str safe_refusal, 0, ''Safe Failure: High Hallucination Risk ('' @ r2 @ '')'', ''Transformer'')
                else (a2, c2, r2, ''Transformer'')),
           [''Rule-Based'', name, ''Transformer''], w2)"
      by (simp add: fallback_exec_def transformer_lookup tp x)
    with False ex tp x show ?thesis by auto
  qed
qed

theorem low_confidence_policy_witness:
  "fst (snd (rule_predict ''tell me something'' (general_features ''tell me something''))) < 0.9 \<and>
   dict_index (strategies offline_env) ''Classical ML'' = Inr (ml_predict offline_env) \<and>
   ml_predict offline_env ''tell me something'' (general_features ''tell me something'') fresh_world =
     (Inr (Str ''I'm not sure, but I'm learning!'', 0.1, ''Unknown''), fresh_world) \<and>
   (\<forall>p. Str ''I'm not sure, but I'm learning!'' \<noteq> Other True p) \<and>
   (0.1 :: real) < 0.35 \<and>
   (\<exists>a2 c2 r2 w2.
       transformer_predict offline_env ''tell me something'' (general_features ''tell me something'') fresh_world
         = (Inr (a2, c2, r2), w2) \<and>
       execute_strategy offline_env (feedback_run init_selector []) ''Classical ML'' ''tell me something''
           (general_features ''tell me something'') fresh_world =
         (Inr (if c2 < 0.2
               then (Str safe_refusal, 0, ''Safe Failure: High Hallucination Risk ('' @ r2 @ '')'', ''Transformer'')
               else (a2, c2, r2, ''Transformer'')),
          [''Rule-Based'', ''Classical ML'', ''Transformer''], w2))"
proof -
  have g: "fst (snd (rule_predict ''tell me something'' (general_features ''tell me something''))) < 0.9"
    by (simp add: rule_nothing)
  have r: "dict_index (strategies offline_env) ''Classical ML'' = Inr (ml_predict offline_env)"
    by (simp add: dict_index_def strategies_def)
  have l: "(0.1 :: real) < 0.35" by simp
  have st: "\<And>p. Str ''I'm not sure, but I'm learning!'' \<noteq> Other True p" by simp
  have i: "\<not> (intent (general_features ''tell me something'') = Some ''factual'' \<or> ''Classical ML'' = ''Transformer'')"
    by (simp add: general_features_def)
  from low_confidence_policy [OF g r ml_nothing st l, of "[]"] i g r l
       ml_nothing[of "general_features ''tell me something''"]
  show ?thesis by simp
qed

section \<open>The retrieval cache\<close>

lemma map_of_dict_set: "map_of (dict_set d k v) k = Some v"
  by (induction d) auto

lemma cache_log_event: "cache (log_event ev w) = cache w"
  by (simp add: log_event_def)

lemma cache_wikipedia_try: "cache (snd (wikipedia_try e depth q w)) = cache w"
proof (induction depth arbitrary: q w)
  case 0
  show ?case by simp
next
  case (Suc depth)
  show ?case
    by (auto simp: Let_def cache_log_event Suc.IH[THEN trans]
        split: http_reply.splits sum.splits list.splits option.splits prod.splits py_value.splits
        dest: arg_cong[where f = "\<lambda>p. cache (snd p)"])
qed

lemma cache_fetch_from_web_apis: "cache (snd (fetch_from_web_apis e q w)) = cache w"
proof -
  have d: "cache (snd (fetch_duckduckgo e q w)) = cache w"
    by (simp add: fetch_duckduckgo_def cache_log_event)
  have k: "\<And>w. cache (snd (fetch_wikipedia e q w)) = cache w"
    using cache_wikipedia_try[of e "recursion_limit e" q]
    by (simp add: fetch_wikipedia_def split: prod.splits) (metis snd_conv)
  show ?thesis
    using d k[of "snd (fetch_duckduckgo e q w)"]
    by (auto simp: fetch_from_web_apis_def split: prod.splits)
qed

lemma local_try_cases:
  assumes "local_try e q qn w = (r, w1)"
  shows "(\<exists>doc score. r = Inr (Some (Str doc, score, ''Local KB (Similarity: '' @ format_2f e score @ '')'')) \<and> 0.4 < score \<and>
             cache w1 = dict_set (cache w) qn (Str doc, score, ''Local KB (Similarity: '' @ format_2f e score @ '')''))
         \<or> ((\<forall>t. r \<noteq> Inr (Some t)) \<and> cache w1 = cache w)"
  using assms
  by (auto simp: local_try_def Let_def cache_log_event split: sum.splits prod.splits if_splits)

lemma retrieval_cache_hit:
  "map_of (cache w) (strip (lower q)) = Some t \<Longrightarrow> retrieval_predict e q f w = (Inr t, w)"
  by (simp add: retrieval_predict_def dict_index_def del: split_paired_Ex)

lemma retrieval_cases:
  assumes "retrieval_predict e q f w = (r, w1)"
  shows "(\<exists>t. r = Inr t \<and> map_of (cache w) (strip (lower q)) = Some t \<and> w1 = w)
       \<or> (\<exists>t. r = Inr t \<and> 0.1 < fst (snd t) \<and> cache w1 = dict_set (cache w) (strip (lower q)) t)
       \<or> (\<exists>t. r = Inr t \<and> \<not> 0.1 < fst (snd t) \<and> cache w1 = cache w)"
proof (cases "map_of (cache w) (strip (lower q))")
  case (Some t)
  from retrieval_cache_hit[OF Some, of e f] assms have "r = Inr t" "w1 = w" by simp_all
  with Some have "r = Inr t \<and> map_of (cache w) (strip (lower q)) = Some t \<and> w1 = w" by simp
  then show ?thesis by blast
next
  case None
  let ?qn = "strip (lower q)"
  obtain lr wl where l: "(if kb_loaded e then local_try e q ?qn w else (Inr None, w)) = (lr, wl)"
    by (cases "if kb_loaded e then local_try e q ?qn w else (Inr None, w)")
  have lc: "(\<exists>doc score. lr = Inr (Some (Str doc, score, ''Local KB (Similarity: '' @ format_2f e score @ '')'')) \<and> 0.4 < score \<and>
             cache wl = dict_set (cache w) ?qn (Str doc, score, ''Local KB (Similarity: '' @ format_2f e score @ '')''))
         \<or> ((\<forall>t. lr \<noteq> Inr (Some t)) \<and> cache wl = cache w)"
  proof (cases "kb_loaded e")
    case True
    with l local_try_cases[of e q ?qn w lr wl] show ?thesis by simp
  next
    case False
    with l show ?thesis by auto
  qed
  then show ?thesis
  proof
    assume "\<exists>doc score. lr = Inr (Some (Str doc, score, ''Local KB (Similarity: '' @ format_2f e score @ '')'')) \<and> 0.4 < score \<and>
             cache wl = dict_set (cache w) ?qn (Str doc, score, ''Local KB (Similarity: '' @ format_2f e score @ '')'')"
    then obtain doc score where
      h: "lr = Inr (Some (Str doc, score, ''Local KB (Similarity: '' @ format_2f e score @ '')''))" "0.4 < score"
         "cache wl = dict_set (cache w) ?qn (Str doc, score, ''Local KB (Similarity: '' @ format_2f e score @ '')'')"
      by blast
    from assms None l h(1) have "r = Inr (Str doc, score, ''Local KB (Similarity: '' @ format_2f e score @ '')'')" "w1 = wl"
      by (simp_all add: retrieval_predict_def Let_def)
    with h(2,3) show ?thesis by auto
  next
    assume miss: "(\<forall>t. lr \<noteq> Inr (Some t)) \<and> cache wl = cache w"
    obtain t w2 where wb: "fetch_from_web_apis e ?qn wl = (t, w2)"
      by (cases "fetch_from_web_apis e ?qn wl")
    from cache_fetch_from_web_apis[of e ?qn wl] wb miss have cw: "cache w2 = cache w" by simp
    from miss have web: "(case (lr, wl) of (Inr (Some result), w1) \<Rightarrow> (Inr result, w1)
               | (_, w1) \<Rightarrow>
                   (case fetch_from_web_apis e ?qn w1 of
                      (result, w2) \<Rightarrow>
                        if fst (snd result) > 0.1
                        then (Inr result, w2\<lparr>cache := dict_set (cache w2) ?qn result\<rparr>)
                        else (Inr result, w2)))
          = (if fst (snd t) > 0.1 then (Inr t, w2\<lparr>cache := dict_set (cache w2) ?qn t\<rparr>) else (Inr t, w2))"
      by (cases lr; cases "projr lr") (auto simp: wb)
    from assms None l have "(r, w1) = (if fst (snd t) > 0.1 then (Inr t, w2\<lparr>cache := dict_set (cache w2) ?qn t\<rparr>) else (Inr t, w2))"
      unfolding web[symmetric] by (simp add: retrieval_predict_def Let_def)
    with cw show ?thesis by (cases "fst (snd t) > 0.1") auto
  qed
qed

text \<open>
  Claim C7, as stated: resolving the same normalized query a second time always returns the
  identical tuple from the cache without calling a provider. A resolution that fails is not
  cached: with a first provider that times out once and answers afterwards, the second call
  for the same query asks the provider again and returns a different tuple.
\<close>

theorem uncached_miss_counterexample:
  "fst (retrieval_predict flaky_env ''python'' (general_features ''python'')
          (snd (retrieval_predict flaky_env ''python'' (general_features ''python'') fresh_world)))
     \<noteq> fst (retrieval_predict flaky_env ''python'' (general_features ''python'') fresh_world) \<and>
   trace (snd (retrieval_predict flaky_env ''python'' (general_features ''python'')
          (snd (retrieval_predict flaky_env ''python'' (general_features ''python'') fresh_world))))
     = trace (snd (retrieval_predict flaky_env ''python'' (general_features ''python'') fresh_world))
       @ [DuckDuckGo ''python'']"
  by (simp add: retrieval_flaky_first retrieval_flaky_second)

text \<open>
  Claim C7, amended: when a resolution returns a tuple whose confidence exceeds 0.1, every
  later resolution of a query with the same normalized form, in any environment, returns
  that tuple and leaves the world unchanged: no similarity search and no provider is called.
  A resolution leaves the cache as it was or stores its result under the normalized query,
  and it stores only a result whose confidence exceeds 0.1.
\<close>

theorem cached_result_is_replayed:
  assumes "retrieval_predict e q f w = (r, w1)"
  shows "(\<forall>t q' e' f'. r = Inr t \<and> 0.1 < fst (snd t) \<and> strip (lower q') = strip (lower q)
             \<longrightarrow> retrieval_predict e' q' f' w1 = (Inr t, w1)) \<and>
         (cache w1 = cache w \<or>
          (\<exists>t. r = Inr t \<and> 0.1 < fst (snd t) \<and> cache w1 = dict_set (cache w) (strip (lower q)) t))"
proof -
  have "retrieval_predict e' q' f' w1 = (Inr t, w1)"
    if "r = Inr t" "0.1 < fst (snd t)" "strip (lower q') = strip (lower q)" for t q' e' f'
  proof -
    from retrieval_cases[OF assms] that(1,2)
    have "map_of (cache w1) (strip (lower q)) = Some t"
      by (auto simp: map_of_dict_set)
    with that(3) show ?thesis by (simp add: retrieval_cache_hit)
  qed
  moreover from retrieval_cases[OF assms]
  have "cache w1 = cache w \<or>
          (\<exists>t. r = Inr t \<and> 0.1 < fst (snd t) \<and> cache w1 = dict_set (cache w) (strip (lower q)) t)"
    by auto
  ultimately show ?thesis by blast
qed

theorem cached_result_is_replayed_witness:
  "retrieval_predict flaky_env ''python'' (general_features ''python'')
       \<lparr>cache = [], trace = [DuckDuckGo ''python'', WikiSummary ''Python'']\<rparr> =
     (Inr (Str ''Python is a programming language.'', 0.85, ''Web Retrieval (DuckDuckGo IA)''),
      \<lparr>cache = [(''python'', (Str ''Python is a programming language.'', 0.85, ''Web Retrieval (DuckDuckGo IA)''))],
       trace = [DuckDuckGo ''python'', WikiSummary ''Python'', DuckDuckGo ''python'']\<rparr>) \<and>
   retrieval_predict offline_env '' Python '' (general_features ''python'')
       \<lparr>cache = [(''python'', (Str ''Python is a programming language.'', 0.85, ''Web Retrieval (DuckDuckGo IA)''))],
        trace = [DuckDuckGo ''python'', WikiSummary ''Python'', DuckDuckGo ''python'']\<rparr> =
     (Inr (Str ''Python is a programming language.'', 0.85, ''Web Retrieval (DuckDuckGo IA)''),
      \<lparr>cache = [(''python'', (Str ''Python is a programming language.'', 0.85, ''Web Retrieval (DuckDuckGo IA)''))],
       trace = [DuckDuckGo ''python'', WikiSummary ''Python'', DuckDuckGo ''python'']\<rparr>)"
proof -
  have n: "strip (lower '' Python '') = strip (lower ''python'')"
    by (simp add: str_eval)
  note hit = cached_result_is_replayed[OF retrieval_flaky_second[of "general_features ''python''"], THEN conjunct1, rule_format,
      where t = "(Str ''Python is a programming language.'', 0.85, ''Web Retrieval (DuckDuckGo IA)'')"
        and q' = "'' Python ''" and e' = offline_env and f' = "general_features ''python''"]
  from hit n retrieval_flaky_second[of "general_features ''python''"]
  show ?thesis by simp
qed

end
